theory Spec2Isabelle
  imports Main
begin

section \<open>Schema documents\<close>

text \<open>
  A \<open>Property\<close> is a JSON object of the schema document. The translator looks at the keys
  \<open>$ref\<close>, \<open>allOf\<close>, \<open>oneOf\<close>, \<open>anyOf\<close>, \<open>type\<close>, \<open>items\<close>, \<open>properties\<close>, \<open>required\<close>,
  \<open>enum\<close> and \<open>nullable\<close>; each is a field that is \<open>None\<close> when the key is absent
  (\<open>"allOf" in property\<close> is \<open>allOf property \<noteq> None\<close>). Every other key of the object
  (\<open>description\<close>, \<open>format\<close>, ...) is kept in \<open>extras\<close> with its value as JSON text.
  The values have the types the translator reads them at: composite members are lists of
  properties, \<open>properties\<close> is the list of the object's entries in the order
  \<open>Object.entries\<close> yields them, \<open>nullable\<close> is a boolean. The order of the keys of one
  object is not represented. A document has a version string and, when it has
  \<open>components\<close>, the \<open>schemas\<close> in them.
\<close>

datatype property = Property
  (ref: "string option")
  (allOf: "property list option")
  (oneOf: "property list option")
  (anyOf: "property list option")
  (type: "string option")
  (items: "property option")
  (properties: "(string \<times> property) list option")
  (required: "string list option")
  (enum: "string list option")
  (nullable: "bool option")
  (extras: "(string \<times> string) list")

record components =
  schemas :: "(string \<times> property) list"

record swagger =
  openapi :: string
  components :: "components option"

datatype outputType = TypeScript | Flow | CodecIoTs

text \<open>\<open>Options\<close>: the field \<open>type\<close> of the source is \<open>otype\<close> here.\<close>

record options =
  otype :: outputType
  exitOnInvalidType :: bool

text \<open>
  The failures of a run. \<open>InvalidType p\<close> is
  \<open>new Error("Invalid type: " + JSON.stringify(p))\<close>, \<open>VersionNotSupported v\<close> is
  \<open>new Error("Version not supported: " + v)\<close>, \<open>NoDefinition\<close> is
  \<open>new Error("There is no definition")\<close>; these are the \<open>Left\<close> values of the run.
  \<open>TypeError\<close> is not a \<open>Left\<close> value: it stands for the exception JavaScript throws when
  \<open>getType\<close> is handed \<open>undefined\<close>, the \<open>items\<close> of an array property that has none. A
  thrown exception ends the run, so every function below passes \<open>Inl TypeError\<close> on, and
  \<open>traverseArray\<close> gives it precedence over the \<open>Left\<close> values.
\<close>

datatype error =
  VersionNotSupported string
  | NoDefinition
  | InvalidType property
  | TypeError

type_synonym TypeResult = "error + string"

section \<open>fp-ts: Either and traverse\<close>

text \<open>\<open>E.left\<close> is \<open>Inl\<close>, \<open>E.right\<close> is \<open>Inr\<close>.\<close>

definition E_map :: "('a \<Rightarrow> 'b) \<Rightarrow> 'e + 'a \<Rightarrow> 'e + 'b" where
  "E_map f ma = (case ma of Inl e \<Rightarrow> Inl e | Inr a \<Rightarrow> Inr (f a))"

definition E_chain :: "('a \<Rightarrow> 'e + 'b) \<Rightarrow> 'e + 'a \<Rightarrow> 'e + 'b" where
  "E_chain f ma = (case ma of Inl e \<Rightarrow> Inl e | Inr a \<Rightarrow> f a)"

text \<open>\<open>E.ap(fa)(fab)\<close>: the failure of \<open>fab\<close> comes first.\<close>

definition E_ap :: "'e + 'a \<Rightarrow> 'e + ('a \<Rightarrow> 'b) \<Rightarrow> 'e + 'b" where
  "E_ap fa fab =
     (case fab of
        Inl e \<Rightarrow> Inl e
      | Inr f \<Rightarrow> (case fa of Inl e \<Rightarrow> Inl e | Inr a \<Rightarrow> Inr (f a)))"

text \<open>
  \<open>A.Traversable.traverse(E.Applicative)\<close>. fp-ts folds the array from the left and
  applies the function to every element, also after one has returned a \<open>Left\<close>. So an
  element that throws ends the run with the exception wherever it stands in the array;
  when none throws, the result is the leftmost \<open>Left\<close>, or the results in the order of
  the array when every element succeeds.
\<close>

definition threw :: "error + 'a \<Rightarrow> bool" where
  "threw r = (r = Inl TypeError)"

fun traverseArray :: "('a \<Rightarrow> error + 'b) \<Rightarrow> 'a list \<Rightarrow> error + 'b list" where
  "traverseArray f [] = Inr []"
| "traverseArray f (x # xs) =
     (if threw (f x) \<or> threw (traverseArray f xs) then Inl TypeError
      else (case f x of
              Inl e \<Rightarrow> Inl e
            | Inr b \<Rightarrow> (case traverseArray f xs of Inl e \<Rightarrow> Inl e | Inr bs \<Rightarrow> Inr (b # bs))))"

section \<open>services/utils\<close>

text \<open>
  Modelled from the spec: the module \<open>./services/utils\<close> is not among the sources. Its functions
  are named for what they do, and the outputs the specification gives for the TypeScript
  generator (\<open>export type Pet={"name":string,"age"?:(number|null)}\<close>) fix them:
  \<open>surround\<close> wraps a string, \<open>prefix\<close> and \<open>suffix\<close> put a string before and after,
  \<open>join\<close> is \<open>Array.prototype.join\<close>, \<open>doIf\<close> applies a function when a condition holds,
  \<open>replace\<close> is \<open>String.prototype.replace\<close> with a string pattern (the first occurrence).
\<close>

definition surround :: "string \<Rightarrow> string \<Rightarrow> string \<Rightarrow> string" where
  "surround before after s = before @ s @ after"

definition prefix :: "string \<Rightarrow> string \<Rightarrow> string" where
  "prefix p s = p @ s"

definition suffix :: "string \<Rightarrow> string \<Rightarrow> string" where
  "suffix x s = s @ x"

fun join :: "string \<Rightarrow> string list \<Rightarrow> string" where
  "join sep [] = []"
| "join sep [x] = x"
| "join sep (x # y # ys) = x @ sep @ join sep (y # ys)"

definition doIf :: "bool \<Rightarrow> ('a \<Rightarrow> 'a) \<Rightarrow> 'a \<Rightarrow> 'a" where
  "doIf condition f a = (if condition then f a else a)"

fun replace :: "string \<Rightarrow> string \<Rightarrow> string \<Rightarrow> string" where
  "replace pat rep s =
     (if take (length pat) s = pat then rep @ drop (length pat) s
      else (case s of [] \<Rightarrow> [] | c # cs \<Rightarrow> c # replace pat rep cs))"

section \<open>Generators\<close>

text \<open>The table of rendering functions a generator is (\<open>models/Generator\<close>).\<close>

record generator =
  getTypeString :: string
  getTypeNumber :: string
  getTypeInteger :: string
  getTypeBoolean :: string
  getTypeEnum :: "string list \<Rightarrow> string"
  getTypeArray :: "string \<Rightarrow> string"
  getTypeAnyOf :: "string list \<Rightarrow> string"
  getTypeOneOf :: "string list \<Rightarrow> string"
  getTypeAllOf :: "string list \<Rightarrow> string"
  getTypeObject :: "string list \<Rightarrow> string"
  getTypeReference :: "string \<Rightarrow> string"
  getProperty :: "string \<Rightarrow> bool \<Rightarrow> string \<Rightarrow> string"
  getTypeUnknown :: string
  addHeader :: "string \<Rightarrow> string"
  combineTypes :: "string list \<Rightarrow> string"
  getTypeDefinition :: "string \<Rightarrow> string \<Rightarrow> string"
  makeTypeNullable :: "string \<Rightarrow> string"

text \<open>
  \<open>dist/generators/typescriptGenerator.js\<close>. \<open>toPascalCase\<close> of \<open>./services/utils\<close> is
  not among the sources and is a parameter.
\<close>

definition typeScriptGenerator :: "(string \<Rightarrow> string) \<Rightarrow> generator" where
  \<open>typeScriptGenerator toPascalCase =
     \<lparr> getTypeString = ''string'',
       getTypeNumber = ''number'',
       getTypeInteger = ''number'',
       getTypeBoolean = ''boolean'',
       getTypeEnum = (\<lambda>values. join ''|'' (map (surround [CHR 0x27] [CHR 0x27]) values)),
       getTypeArray = surround ''Array<'' ''>'',
       getTypeAnyOf = join ''|'',
       getTypeOneOf = join ''|'',
       getTypeAllOf = join ''&'',
       getTypeObject = (\<lambda>fs. surround ''{'' ''}'' (join '','' fs)),
       getTypeReference = toPascalCase,
       getProperty = (\<lambda>key isRequired.
          prefix (suffix '':'' (doIf (\<not> isRequired) (suffix ''?'') (surround ''"'' ''"'' key)))),
       getTypeUnknown = ''unknown'',
       addHeader = prefix (''"use strict";'' @ [CHR 0x0A]),
       combineTypes = join '';'',
       getTypeDefinition = (\<lambda>key. prefix (''export type '' @ toPascalCase key @ ''='')),
       makeTypeNullable = (\<lambda>t. surround ''('' '')'' (suffix ''|null'' t)) \<rparr>\<close>

text \<open>
  What \<open>index.ts\<close> imports and the sources do not hold: \<open>toPascalCase\<close>, the Flow generator
  and the io-ts codec generator. The functions below take them in an environment.
\<close>

record env =
  toPascalCase :: "string \<Rightarrow> string"
  flowGenerator :: generator
  codecGenerator :: generator

definition getGenerator :: "env \<Rightarrow> options \<Rightarrow> generator" where
  "getGenerator env options =
     (case otype options of
        TypeScript \<Rightarrow> typeScriptGenerator (toPascalCase env)
      | Flow \<Rightarrow> flowGenerator env
      | CodecIoTs \<Rightarrow> codecGenerator env)"

section \<open>Type guards\<close>

text \<open>
  Modelled from the spec: the module \<open>./type-guards\<close> is not among the sources. The specification
  distinguishes the variants of a property by the fields that are present (section 3):
  a reference has a \<open>$ref\<close>, a composite has \<open>allOf\<close>, \<open>anyOf\<close> or \<open>oneOf\<close>, and the
  other variants are told by the value of \<open>type\<close>, an enum being a string with \<open>enum\<close>
  values. These are also the tests the older \<open>bin/generate.js\<close> makes in place.
\<close>

definition isReference :: "property \<Rightarrow> bool" where
  "isReference p = (ref p \<noteq> None)"

definition isAllOf :: "property \<Rightarrow> bool" where
  "isAllOf p = (allOf p \<noteq> None)"

definition isOneOf :: "property \<Rightarrow> bool" where
  "isOneOf p = (oneOf p \<noteq> None)"

definition isAnyOf :: "property \<Rightarrow> bool" where
  "isAnyOf p = (anyOf p \<noteq> None)"

definition isArray :: "property \<Rightarrow> bool" where
  "isArray p = (type p = Some ''array'')"

definition isObject :: "property \<Rightarrow> bool" where
  "isObject p = (type p = Some ''object'')"

definition isEnum :: "property \<Rightarrow> bool" where
  "isEnum p = (type p = Some ''string'' \<and> enum p \<noteq> None)"

definition isNumber :: "property \<Rightarrow> bool" where
  "isNumber p = (type p = Some ''number'')"

definition isString :: "property \<Rightarrow> bool" where
  "isString p = (type p = Some ''string'')"

definition isBoolean :: "property \<Rightarrow> bool" where
  "isBoolean p = (type p = Some ''boolean'')"

definition isInteger :: "property \<Rightarrow> bool" where
  "isInteger p = (type p = Some ''integer'')"

section \<open>The translator (index.ts)\<close>

definition getDefinitions :: "swagger \<Rightarrow> error + (string \<times> property) list" where
  "getDefinitions swagger =
     (case components swagger of
        Some c \<Rightarrow> Inr (schemas c)
      | None \<Rightarrow> Inl NoDefinition)"

definition getReferenceName :: "env \<Rightarrow> options \<Rightarrow> string \<Rightarrow> string" where
  "getReferenceName env options r =
     getTypeReference (getGenerator env options) (replace ''#/components/schemas/'' '''' r)"

definition isRequired :: "string \<Rightarrow> string list option \<Rightarrow> bool" where
  "isRequired key requiredFields =
     (case requiredFields of None \<Rightarrow> False | Some names \<Rightarrow> key \<in> set names)"

definition isNullable :: "property \<Rightarrow> bool" where
  "isNullable p = (nullable p = Some True)"

text \<open>
  \<open>fixErrorsOnProperty\<close>: with \<open>const { allOf, ...otherProperties } = property\<close> the
  result is the object whose only key is \<open>allOf\<close>, holding the members followed by the
  object of all the other keys.
\<close>

definition fixErrorsOnProperty :: "property \<Rightarrow> property" where
  "fixErrorsOnProperty p =
     (if allOf p \<noteq> None \<and> type p \<noteq> None then
        Property None
          (Some (the (allOf p) @
             [Property (ref p) None (oneOf p) (anyOf p) (type p) (items p) (properties p)
                (required p) (enum p) (nullable p) (extras p)]))
          None None None None None None None None []
      else if oneOf p \<noteq> None \<and> type p \<noteq> None then
        Property None None
          (Some (the (oneOf p) @
             [Property (ref p) (allOf p) None (anyOf p) (type p) (items p) (properties p)
                (required p) (enum p) (nullable p) (extras p)]))
          None None None None None None None []
      else if anyOf p \<noteq> None \<and> type p \<noteq> None then
        Property None None None
          (Some (the (anyOf p) @
             [Property (ref p) (allOf p) (oneOf p) None (type p) (items p) (properties p)
                (required p) (enum p) (nullable p) (extras p)]))
          None None None None None None []
      else p)"

definition getInvalidType :: "env \<Rightarrow> options \<Rightarrow> property \<Rightarrow> TypeResult" where
  "getInvalidType env options p =
     (if exitOnInvalidType options then Inl (InvalidType p)
      else Inr (getTypeUnknown (getGenerator env options)))"

definition isValidAllOf :: "property \<Rightarrow> bool" where
  "isValidAllOf p =
     (isAllOf p \<and> list_all (\<lambda>subprop. isReference subprop \<or> isObject subprop) (the (allOf p)))"

lemma traverseArray_cong [fundef_cong]:
  "xs = ys \<Longrightarrow> (\<And>x. x \<in> set ys \<Longrightarrow> f x = g x) \<Longrightarrow> traverseArray f xs = traverseArray g ys"
  by (induction ys arbitrary: xs) (auto split: sum.splits)

subsection \<open>Termination of the translation\<close>

text \<open>
  The members \<open>getType\<close> descends to are parts of the property, or the property without
  one of its composite keys: the size does not grow, and the number of composite keys
  falls when it stays.
\<close>

lemma size_member_le: "x \<in> set xs \<Longrightarrow> size x \<le> size_list size xs"
  by (induction xs) auto

lemma size_entry_le: "(k, v) \<in> set kvs \<Longrightarrow> size v \<le> size_list (size_prod (\<lambda>x. 0) size) kvs"
  by (induction kvs) auto

lemma size_allOf_member: "allOf p = Some xs \<Longrightarrow> x \<in> set xs \<Longrightarrow> size x < size p"
  by (cases p) (auto dest!: size_member_le)

lemma size_oneOf_member: "oneOf p = Some xs \<Longrightarrow> x \<in> set xs \<Longrightarrow> size x < size p"
  by (cases p) (auto dest!: size_member_le)

lemma size_anyOf_member: "anyOf p = Some xs \<Longrightarrow> x \<in> set xs \<Longrightarrow> size x < size p"
  by (cases p) (auto dest!: size_member_le)

lemma size_items_member: "items p = Some i \<Longrightarrow> size i < size p"
  by (cases p) auto

lemma size_properties_member:
  "properties p = Some kvs \<Longrightarrow> (k, v) \<in> set kvs \<Longrightarrow> size v < size p"
  by (cases p) (auto dest!: size_entry_le)

definition composites :: "property \<Rightarrow> nat" where
  "composites p =
     (if allOf p = None then 0 else 1) + (if oneOf p = None then 0 else 1) +
     (if anyOf p = None then 0 else 1)"

definition smaller :: "property \<Rightarrow> property \<Rightarrow> bool" where
  "smaller x p = (size x < size p \<or> size x = size p \<and> composites x < composites p)"

lemma smaller_rest_allOf:
  "allOf p = Some ys \<Longrightarrow>
   smaller (Property (ref p) None (oneOf p) (anyOf p) (type p) (items p) (properties p)
              (required p) (enum p) (nullable p) (extras p)) p"
  by (cases p) (auto simp: smaller_def composites_def)

lemma smaller_rest_oneOf:
  "oneOf p = Some ys \<Longrightarrow>
   smaller (Property (ref p) (allOf p) None (anyOf p) (type p) (items p) (properties p)
              (required p) (enum p) (nullable p) (extras p)) p"
  by (cases p) (auto simp: smaller_def composites_def)

lemma smaller_rest_anyOf:
  "anyOf p = Some ys \<Longrightarrow>
   smaller (Property (ref p) (allOf p) (oneOf p) None (type p) (items p) (properties p)
              (required p) (enum p) (nullable p) (extras p)) p"
  by (cases p) (auto simp: smaller_def composites_def)

lemma size_fix_allOf:
  assumes "allOf (fixErrorsOnProperty p) = Some xs" and "x \<in> set xs"
  shows "smaller x p"
proof (cases "allOf p \<noteq> None \<and> type p \<noteq> None")
  case True
  then obtain ys where ys: "allOf p = Some ys" by auto
  let ?rest = "Property (ref p) None (oneOf p) (anyOf p) (type p) (items p) (properties p)
                (required p) (enum p) (nullable p) (extras p)"
  from True ys assms have "x \<in> set ys \<or> x = ?rest"
    by (auto simp: fixErrorsOnProperty_def)
  then show ?thesis
    using size_allOf_member [OF ys] smaller_rest_allOf [OF ys] by (auto simp: smaller_def)
next
  case False
  with assms have "allOf p = Some xs"
    by (auto simp: fixErrorsOnProperty_def split: if_splits)
  then show ?thesis using assms(2) by (simp add: smaller_def size_allOf_member)
qed

lemma size_fix_oneOf:
  assumes "oneOf (fixErrorsOnProperty p) = Some xs" and "x \<in> set xs"
  shows "smaller x p"
proof (cases "allOf p = None \<and> oneOf p \<noteq> None \<and> type p \<noteq> None")
  case True
  then obtain ys where ys: "oneOf p = Some ys" by auto
  let ?rest = "Property (ref p) (allOf p) None (anyOf p) (type p) (items p) (properties p)
                (required p) (enum p) (nullable p) (extras p)"
  from True ys assms have "x \<in> set ys \<or> x = ?rest"
    by (auto simp: fixErrorsOnProperty_def)
  then show ?thesis
    using size_oneOf_member [OF ys] smaller_rest_oneOf [OF ys] by (auto simp: smaller_def)
next
  case False
  with assms have "oneOf p = Some xs"
    by (auto simp: fixErrorsOnProperty_def split: if_splits)
  then show ?thesis using assms(2) by (simp add: smaller_def size_oneOf_member)
qed

lemma size_fix_anyOf:
  assumes "anyOf (fixErrorsOnProperty p) = Some xs" and "x \<in> set xs"
  shows "smaller x p"
proof (cases "allOf p = None \<and> oneOf p = None \<and> anyOf p \<noteq> None \<and> type p \<noteq> None")
  case True
  then obtain ys where ys: "anyOf p = Some ys" by auto
  let ?rest = "Property (ref p) (allOf p) (oneOf p) None (type p) (items p) (properties p)
                (required p) (enum p) (nullable p) (extras p)"
  from True ys assms have "x \<in> set ys \<or> x = ?rest"
    by (auto simp: fixErrorsOnProperty_def)
  then show ?thesis
    using size_anyOf_member [OF ys] smaller_rest_anyOf [OF ys] by (auto simp: smaller_def)
next
  case False
  with assms have "anyOf p = Some xs"
    by (auto simp: fixErrorsOnProperty_def split: if_splits)
  then show ?thesis using assms(2) by (simp add: smaller_def size_anyOf_member)
qed

lemma size_fix_items:
  "items (fixErrorsOnProperty p) = Some i \<Longrightarrow> smaller i p"
  by (auto simp: fixErrorsOnProperty_def smaller_def size_items_member split: if_splits)

lemma size_fix_properties:
  "properties (fixErrorsOnProperty p) = Some kvs \<Longrightarrow> (k, v) \<in> set kvs \<Longrightarrow> smaller v p"
  by (auto simp: fixErrorsOnProperty_def smaller_def split: if_splits intro: size_properties_member)

lemma smaller_measures:
  "smaller x p \<Longrightarrow>
   ((env, options, x), (env', options', p))
     \<in> measures [\<lambda>(env, options, property). size property,
                 \<lambda>(env, options, property). composites property]"
  by (auto simp: smaller_def)

text \<open>
  \<open>getType\<close>. The chain of property handlers (\<open>getTypeRef\<close>, \<open>getTypeAllOf\<close>,
  \<open>getTypeAnyOf\<close>, \<open>getTypeOneOf\<close>, \<open>getTypeArray\<close>, \<open>getTypeObject\<close>, \<open>getTypeEnum\<close>,
  \<open>getTypeNumber\<close>, \<open>getTypeString\<close>, \<open>getTypeBoolean\<close>, \<open>getTypeInteger\<close>) runs on the
  fixed property: the first handler whose guard holds answers, and \<open>getInvalidType\<close>
  answers when none does. \<open>makeTypeNullable\<close> is then applied when the property
  \<open>getType\<close> was called with is nullable.
\<close>

function getType :: "env \<Rightarrow> options \<Rightarrow> property \<Rightarrow> TypeResult" where
  "getType env options property =
     E_map (doIf (isNullable property) (makeTypeNullable (getGenerator env options)))
       (if isReference (fixErrorsOnProperty property) then
          Inr (getReferenceName env options (the (ref (fixErrorsOnProperty property))))
        else if isValidAllOf (fixErrorsOnProperty property) then
          E_map (getTypeAllOf (getGenerator env options))
            (traverseArray (getType env options) (the (allOf (fixErrorsOnProperty property))))
        else if isAnyOf (fixErrorsOnProperty property) then
          E_map (getTypeAnyOf (getGenerator env options))
            (traverseArray (getType env options) (the (anyOf (fixErrorsOnProperty property))))
        else if isOneOf (fixErrorsOnProperty property) then
          E_map (getTypeOneOf (getGenerator env options))
            (traverseArray (getType env options) (the (oneOf (fixErrorsOnProperty property))))
        else if isArray (fixErrorsOnProperty property) then
          (case items (fixErrorsOnProperty property) of
             None \<Rightarrow> Inl TypeError
           | Some child \<Rightarrow> E_map (getTypeArray (getGenerator env options)) (getType env options child))
        else if isObject (fixErrorsOnProperty property) then
          E_map (getTypeObject (getGenerator env options))
            (traverseArray
               (\<lambda>(key, childProperty).
                  E_map (getProperty (getGenerator env options) key
                           (isRequired key (required (fixErrorsOnProperty property))))
                    (getType env options childProperty))
               (case properties (fixErrorsOnProperty property) of None \<Rightarrow> [] | Some entries \<Rightarrow> entries))
        else if isEnum (fixErrorsOnProperty property) then
          Inr (getTypeEnum (getGenerator env options) (the (enum (fixErrorsOnProperty property))))
        else if isNumber (fixErrorsOnProperty property) then Inr (getTypeNumber (getGenerator env options))
        else if isString (fixErrorsOnProperty property) then Inr (getTypeString (getGenerator env options))
        else if isBoolean (fixErrorsOnProperty property) then Inr (getTypeBoolean (getGenerator env options))
        else if isInteger (fixErrorsOnProperty property) then Inr (getTypeInteger (getGenerator env options))
        else getInvalidType env options (fixErrorsOnProperty property))"
  by pat_completeness auto
termination
proof (relation "measures [\<lambda>(env, options, property). size property,
                           \<lambda>(env, options, property). composites property]")
  fix env :: env and options :: options and property x
  assume "isValidAllOf (fixErrorsOnProperty property)"
    and "x \<in> set (the (allOf (fixErrorsOnProperty property)))"
  then show "((env, options, x), (env, options, property))
      \<in> measures [\<lambda>(env, options, property). size property,
                  \<lambda>(env, options, property). composites property]"
    by (intro smaller_measures size_fix_allOf [where x = x])
      (auto simp: isValidAllOf_def isAllOf_def)
next
  fix env :: env and options :: options and property x
  assume "isAnyOf (fixErrorsOnProperty property)"
    and "x \<in> set (the (anyOf (fixErrorsOnProperty property)))"
  then show "((env, options, x), (env, options, property))
      \<in> measures [\<lambda>(env, options, property). size property,
                  \<lambda>(env, options, property). composites property]"
    by (intro smaller_measures size_fix_anyOf [where x = x]) (auto simp: isAnyOf_def)
next
  fix env :: env and options :: options and property x
  assume "isOneOf (fixErrorsOnProperty property)"
    and "x \<in> set (the (oneOf (fixErrorsOnProperty property)))"
  then show "((env, options, x), (env, options, property))
      \<in> measures [\<lambda>(env, options, property). size property,
                  \<lambda>(env, options, property). composites property]"
    by (intro smaller_measures size_fix_oneOf [where x = x]) (auto simp: isOneOf_def)
next
  fix env :: env and options :: options and property child
  assume "items (fixErrorsOnProperty property) = Some child"
  then show "((env, options, child), (env, options, property))
      \<in> measures [\<lambda>(env, options, property). size property,
                  \<lambda>(env, options, property). composites property]"
    by (intro smaller_measures size_fix_items)
next
  fix env :: env and options :: options and property entries and entry :: "string \<times> property"
    and key childProperty
  assume "entry \<in> set (case properties (fixErrorsOnProperty property) of
                          None \<Rightarrow> [] | Some entries \<Rightarrow> entries)"
    and "(key, childProperty) = entry"
  then obtain kvs where "properties (fixErrorsOnProperty property) = Some kvs"
    and "(key, childProperty) \<in> set kvs"
    by (cases "properties (fixErrorsOnProperty property)") auto
  then show "((env, options, childProperty), (env, options, property))
      \<in> measures [\<lambda>(env, options, property). size property,
                  \<lambda>(env, options, property). composites property]"
    by (intro smaller_measures size_fix_properties)
qed simp

declare getType.simps [simp del]


text \<open>
  A property with no \<open>$ref\<close> and no composite key: the translation dispatches on its
  \<open>type\<close>.
\<close>

definition plain :: "property \<Rightarrow> bool" where
  "plain p = (ref p = None \<and> allOf p = None \<and> anyOf p = None \<and> oneOf p = None)"

subsection \<open>The driver\<close>

text \<open>
  \<open>swagger.openapi.match(/3\.0\.\d+/)\<close>: the pattern is not anchored, so the test is
  whether \<open>3.0.\<close> followed by a digit occurs somewhere in the string.
\<close>

definition isDigit :: "char \<Rightarrow> bool" where
  "isDigit c = (c \<in> set ''0123456789'')"

fun matchHere :: "string \<Rightarrow> bool" where
  "matchHere (c1 # c2 # c3 # c4 # c5 # cs) =
     (c1 = CHR ''3'' \<and> c2 = CHR ''.'' \<and> c3 = CHR ''0'' \<and> c4 = CHR ''.'' \<and> isDigit c5)"
| "matchHere cs = False"

fun matchVersion :: "string \<Rightarrow> bool" where
  "matchVersion [] = False"
| "matchVersion (c # cs) = (matchHere (c # cs) \<or> matchVersion cs)"

definition checkOpenApiVersion :: "swagger \<Rightarrow> error + swagger" where
  "checkOpenApiVersion swagger =
     (if matchVersion (openapi swagger) then Inr swagger
      else Inl (VersionNotSupported (openapi swagger)))"

definition getTypesFromSchemas ::
  "env \<Rightarrow> options \<Rightarrow> (string \<times> property) list \<Rightarrow> error + string list" where
  "getTypesFromSchemas env options schemaMap =
     traverseArray
       (\<lambda>(key, property).
          E_map (getTypeDefinition (getGenerator env options) key) (getType env options property))
       schemaMap"

definition eitherPrefix :: "error + string \<Rightarrow> error + string \<Rightarrow> error + string" where
  "eitherPrefix b c = E_ap c (E_map prefix b)"

definition baseDefinitionsToString ::
  "env \<Rightarrow> options \<Rightarrow> (string \<times> property) list \<Rightarrow> error + string" where
  "baseDefinitionsToString env options schemaMap =
     E_map (combineTypes (getGenerator env options)) (getTypesFromSchemas env options schemaMap)"

text \<open>
  \<open>definitionsToString\<close>. JavaScript evaluates the TypeScript pass whatever the output
  type is, as an argument of \<open>doIf\<close>, and drops it unless the output type is the codec.
  A pass throws under one generator exactly when it throws under another (lemma
  \<open>baseDefinitionsToString_throws_whatever_the_options\<close> below), so the dropped pass does
  not change the outcome and is not modelled.
\<close>

definition definitionsToString ::
  "env \<Rightarrow> options \<Rightarrow> (string \<times> property) list \<Rightarrow> error + string" where
  "definitionsToString env options schemaMap =
     doIf (otype options = CodecIoTs)
       (\<lambda>c. eitherPrefix
               (baseDefinitionsToString env (options\<lparr>otype := TypeScript\<rparr>) schemaMap)
               (E_map (prefix '';'') c))
       (baseDefinitionsToString env options schemaMap)"

definition generate :: "env \<Rightarrow> options \<Rightarrow> swagger \<Rightarrow> error + string" where
  "generate env options swagger =
     E_map (addHeader (getGenerator env options))
       (E_chain (definitionsToString env options)
          (E_chain getDefinitions (checkOpenApiVersion swagger)))"

section \<open>Concrete documents\<close>

text \<open>
  Object literals of the schema language: \<open>{$ref: r}\<close>, \<open>{type: t}\<close>,
  \<open>{type: "object", properties: entries, required: names}\<close>, \<open>{allOf: members}\<close>,
  \<open>{anyOf: members}\<close>, and a property with \<open>nullable: true\<close> set.
\<close>

definition refProperty :: "string \<Rightarrow> property" where
  "refProperty r = Property (Some r) None None None None None None None None None []"

definition typeProperty :: "string \<Rightarrow> property" where
  "typeProperty t = Property None None None None (Some t) None None None None None []"

definition objectProperty :: "(string \<times> property) list \<Rightarrow> string list option \<Rightarrow> property" where
  "objectProperty entries names =
     Property None None None None (Some ''object'') None (Some entries) names None None []"

definition allOfProperty :: "property list \<Rightarrow> property" where
  "allOfProperty members = Property None (Some members) None None None None None None None None []"

definition anyOfProperty :: "property list \<Rightarrow> property" where
  "anyOfProperty members = Property None None None (Some members) None None None None None None []"

definition withNullable :: "property \<Rightarrow> property" where
  "withNullable p =
     Property (ref p) (allOf p) (oneOf p) (anyOf p) (type p) (items p) (properties p)
       (required p) (enum p) (Some True) (extras p)"

text \<open>
  An environment for concrete instances. \<open>pascalCase\<close> capitalises the tokens between
  dashes and joins them, as \<open>toCamelCase\<close> of the older \<open>bin/generate.js\<close> does (on ASCII
  letters, an empty token staying empty). The Flow and codec tables are not among the sources: the
  TypeScript table stands in their places. The theorems below hold for every environment;
  only their instances use this one.
\<close>

definition toUpperCase :: "char \<Rightarrow> char" where
  "toUpperCase c =
     (case map_of (zip ''abcdefghijklmnopqrstuvwxyz'' ''ABCDEFGHIJKLMNOPQRSTUVWXYZ'') c of
        Some u \<Rightarrow> u
      | None \<Rightarrow> c)"

fun split :: "char \<Rightarrow> string \<Rightarrow> string list" where
  "split sep [] = [[]]"
| "split sep (c # cs) =
     (if c = sep then [] # split sep cs
      else (case split sep cs of token # tokens \<Rightarrow> (c # token) # tokens | [] \<Rightarrow> [[c]]))"

definition pascalCase :: "string \<Rightarrow> string" where
  "pascalCase key =
     concat (map (\<lambda>token. case token of [] \<Rightarrow> [] | c # cs \<Rightarrow> toUpperCase c # cs)
               (split (CHR ''-'') key))"

definition exampleEnv :: env where
  "exampleEnv =
     \<lparr> toPascalCase = pascalCase,
       flowGenerator = typeScriptGenerator pascalCase,
       codecGenerator = typeScriptGenerator pascalCase \<rparr>"



text \<open>
  The property \<open>{type: "object", allOf: [{$ref: "#/components/schemas/A"}],
  properties: {x: {type: "string"}}}\<close>.
\<close>

definition mixedAllOf :: property where
  "mixedAllOf =
     Property None (Some [refProperty ''#/components/schemas/A'']) None None (Some ''object'')
       None (Some [(''x'', typeProperty ''string'')]) None None None []"

text \<open>
  \<open>{allOf: [{$ref: "#/components/schemas/A"}], oneOf: [{$ref: "#/components/schemas/Pet"}]}\<close>,
  and the same composite keys beside a \<open>$ref\<close>:
  \<open>{$ref: "#/components/schemas/Pet", allOf: [{$ref: "#/components/schemas/A"}],
  oneOf: [{$ref: "#/components/schemas/A"}]}\<close>.
\<close>

definition allOfWithOneOf :: property where
  "allOfWithOneOf =
     Property None (Some [refProperty ''#/components/schemas/A''])
       (Some [refProperty ''#/components/schemas/Pet'']) None None None None None None None []"

definition refWithAllOfAndOneOf :: property where
  "refWithAllOfAndOneOf =
     Property (Some ''#/components/schemas/Pet'') (Some [refProperty ''#/components/schemas/A''])
       (Some [refProperty ''#/components/schemas/A'']) None None None None None None None []"

text \<open>
  \<open>{allOf: [{$ref: "#/components/schemas/A"}], properties: {x: {type: "string"}}}\<close>, a
  composite beside \<open>properties\<close> and no \<open>type\<close>; and \<open>{type: "string", allOf: [{type:
  "string"}]}\<close>.
\<close>

definition allOfWithProperties :: property where
  "allOfWithProperties =
     Property None (Some [refProperty ''#/components/schemas/A'']) None None None None
       (Some [(''x'', typeProperty ''string'')]) None None None []"

definition stringWithAllOf :: property where
  "stringWithAllOf =
     Property None (Some [typeProperty ''string'']) None None (Some ''string'') None None None
       None None []"

text \<open>
  The schema \<open>Pet\<close>: \<open>{type: "object", required: ["name"], properties: {name: {type:
  "string"}, age: {type: "integer", nullable: true}}}\<close>, and the document that holds it
  under a given version.
\<close>

definition pet :: property where
  "pet =
     objectProperty
       [(''name'', typeProperty ''string''), (''age'', withNullable (typeProperty ''integer''))]
       (Some [''name''])"

definition petDocument :: "string \<Rightarrow> swagger" where
  "petDocument version =
     \<lparr> openapi = version, components = Some \<lparr> schemas = [(''Pet'', pet)] \<rparr> \<rparr>"

section \<open>Properties of the helpers\<close>

lemma threw_simps [simp]:
  "\<not> threw (Inr a)" "threw (Inl e) \<longleftrightarrow> e = TypeError"
  by (simp_all add: threw_def)

lemma traverseArray_all_Inr:
  "(\<And>x. x \<in> set xs \<Longrightarrow> f x = Inr (g x)) \<Longrightarrow> traverseArray f xs = Inr (map g xs)"
  by (induction xs) auto

text \<open>The traversal ends with the exception exactly when an element throws.\<close>

lemma traverseArray_threw:
  "traverseArray f xs = Inl TypeError \<longleftrightarrow> (\<exists>x \<in> set xs. f x = Inl TypeError)"
  by (induction xs) (auto simp: threw_def split: sum.splits)

lemma traverseArray_all_projr:
  "\<forall>x \<in> set xs. \<exists>y. f x = Inr y \<Longrightarrow> traverseArray f xs = Inr (map (\<lambda>x. projr (f x)) xs)"
  by (rule traverseArray_all_Inr) auto

lemma traverseArray_Cons_Inl:
  "f b = Inl e \<Longrightarrow> \<forall>x \<in> set after. f x \<noteq> Inl TypeError \<Longrightarrow>
   traverseArray f (b # after) = Inl e"
  using traverseArray_threw [of f after] by (auto simp: threw_def)

lemma traverseArray_first_Inl:
  "\<forall>x \<in> set before. \<exists>y. f x = Inr y \<Longrightarrow> f b = Inl e \<Longrightarrow>
   \<forall>x \<in> set after. f x \<noteq> Inl TypeError \<Longrightarrow>
   traverseArray f (before @ b # after) = Inl e"
proof (induction before)
  case Nil
  then show ?case by (simp add: traverseArray_Cons_Inl del: traverseArray.simps)
next
  case (Cons x before)
  then obtain y where "f x = Inr y" by auto
  moreover have "traverseArray f (before @ b # after) = Inl e"
    using Cons by simp
  ultimately show ?case by (auto simp: threw_def)
qed

lemma fixErrorsOnProperty_no_type:
  "type p = None \<Longrightarrow> fixErrorsOnProperty p = p"
  by (simp add: fixErrorsOnProperty_def)

lemma fix_allOf_no_type:
  "isAllOf (fixErrorsOnProperty p) \<Longrightarrow> type (fixErrorsOnProperty p) = None"
  by (auto simp: fixErrorsOnProperty_def isAllOf_def split: if_splits)

lemma withNullable_fields:
  "ref (withNullable p) = ref p" "allOf (withNullable p) = allOf p"
  "oneOf (withNullable p) = oneOf p" "anyOf (withNullable p) = anyOf p"
  "type (withNullable p) = type p" "items (withNullable p) = items p"
  "properties (withNullable p) = properties p" "required (withNullable p) = required p"
  "enum (withNullable p) = enum p" "nullable (withNullable p) = Some True"
  "extras (withNullable p) = extras p"
  by (simp_all add: withNullable_def)

text \<open>
  The version test is the search the regular expression makes: \<open>3.0.\<close> and a digit
  somewhere in the string.
\<close>

lemma matchHere_iff:
  "matchHere s \<longleftrightarrow> (\<exists>d rest. s = ''3.0.'' @ d # rest \<and> isDigit d)"
  by (cases s rule: matchHere.cases) auto

lemma matchVersion_iff:
  "matchVersion s \<longleftrightarrow> (\<exists>before d rest. s = before @ ''3.0.'' @ d # rest \<and> isDigit d)"
proof (induction s)
  case Nil
  then show ?case by simp
next
  case (Cons c cs)
  show ?case
  proof
    assume "matchVersion (c # cs)"
    then consider "matchHere (c # cs)" | "matchVersion cs" by auto
    then show "\<exists>before d rest. c # cs = before @ ''3.0.'' @ d # rest \<and> isDigit d"
    proof cases
      case 1
      then obtain d rest where "c # cs = [] @ ''3.0.'' @ d # rest" "isDigit d"
        by (auto simp: matchHere_iff)
      then show ?thesis by blast
    next
      case 2
      then obtain before d rest where "cs = before @ ''3.0.'' @ d # rest" "isDigit d"
        using Cons.IH by blast
      then have "c # cs = (c # before) @ ''3.0.'' @ d # rest" by simp
      then show ?thesis using \<open>isDigit d\<close> by blast
    qed
  next
    assume "\<exists>before d rest. c # cs = before @ ''3.0.'' @ d # rest \<and> isDigit d"
    then obtain before d rest where eq: "c # cs = before @ ''3.0.'' @ d # rest" and d: "isDigit d"
      by blast
    show "matchVersion (c # cs)"
    proof (cases before)
      case Nil
      with eq d have "matchHere (c # cs)" by (auto simp: matchHere_iff)
      then show ?thesis by simp
    next
      case (Cons b bs)
      with eq have "cs = bs @ ''3.0.'' @ d # rest" by simp
      with d have "matchVersion cs" using Cons.IH by blast
      then show ?thesis by simp
    qed
  qed
qed

section \<open>The branches of the translation\<close>

lemma getType_reference:
  "isReference (fixErrorsOnProperty p) \<Longrightarrow>
   getType env options p =
     E_map (doIf (isNullable p) (makeTypeNullable (getGenerator env options)))
       (Inr (getReferenceName env options (the (ref (fixErrorsOnProperty p)))))"
  by (subst getType.simps) simp

lemma getType_allOf:
  "\<not> isReference (fixErrorsOnProperty p) \<Longrightarrow> isValidAllOf (fixErrorsOnProperty p) \<Longrightarrow>
   getType env options p =
     E_map (doIf (isNullable p) (makeTypeNullable (getGenerator env options)))
       (E_map (getTypeAllOf (getGenerator env options))
          (traverseArray (getType env options) (the (allOf (fixErrorsOnProperty p)))))"
  by (subst getType.simps) simp

lemma getType_anyOf:
  "\<not> isReference (fixErrorsOnProperty p) \<Longrightarrow> \<not> isValidAllOf (fixErrorsOnProperty p) \<Longrightarrow>
   isAnyOf (fixErrorsOnProperty p) \<Longrightarrow>
   getType env options p =
     E_map (doIf (isNullable p) (makeTypeNullable (getGenerator env options)))
       (E_map (getTypeAnyOf (getGenerator env options))
          (traverseArray (getType env options) (the (anyOf (fixErrorsOnProperty p)))))"
  by (subst getType.simps) simp

lemma getType_oneOf:
  "\<not> isReference (fixErrorsOnProperty p) \<Longrightarrow> \<not> isValidAllOf (fixErrorsOnProperty p) \<Longrightarrow>
   \<not> isAnyOf (fixErrorsOnProperty p) \<Longrightarrow> isOneOf (fixErrorsOnProperty p) \<Longrightarrow>
   getType env options p =
     E_map (doIf (isNullable p) (makeTypeNullable (getGenerator env options)))
       (E_map (getTypeOneOf (getGenerator env options))
          (traverseArray (getType env options) (the (oneOf (fixErrorsOnProperty p)))))"
  by (subst getType.simps) simp

lemma getType_invalid:
  "\<not> isReference (fixErrorsOnProperty p) \<Longrightarrow> \<not> isValidAllOf (fixErrorsOnProperty p) \<Longrightarrow>
   \<not> isAnyOf (fixErrorsOnProperty p) \<Longrightarrow> \<not> isOneOf (fixErrorsOnProperty p) \<Longrightarrow>
   \<not> isArray (fixErrorsOnProperty p) \<Longrightarrow> \<not> isObject (fixErrorsOnProperty p) \<Longrightarrow>
   \<not> isEnum (fixErrorsOnProperty p) \<Longrightarrow> \<not> isNumber (fixErrorsOnProperty p) \<Longrightarrow>
   \<not> isString (fixErrorsOnProperty p) \<Longrightarrow> \<not> isBoolean (fixErrorsOnProperty p) \<Longrightarrow>
   \<not> isInteger (fixErrorsOnProperty p) \<Longrightarrow>
   getType env options p =
     E_map (doIf (isNullable p) (makeTypeNullable (getGenerator env options)))
       (getInvalidType env options (fixErrorsOnProperty p))"
  by (subst getType.simps) simp

lemma plain_fix: "plain p \<Longrightarrow> fixErrorsOnProperty p = p"
  by (simp add: plain_def fixErrorsOnProperty_def)

lemma plain_guards:
  "plain p \<Longrightarrow> \<not> isReference p \<and> \<not> isValidAllOf p \<and> \<not> isAnyOf p \<and> \<not> isOneOf p"
  by (simp add: plain_def isReference_def isValidAllOf_def isAllOf_def isAnyOf_def isOneOf_def)

lemma getType_plain:
  "plain p \<Longrightarrow>
   getType env options p =
     E_map (doIf (isNullable p) (makeTypeNullable (getGenerator env options)))
       (if isArray p then
          (case items p of
             None \<Rightarrow> Inl TypeError
           | Some child \<Rightarrow> E_map (getTypeArray (getGenerator env options)) (getType env options child))
        else if isObject p then
          E_map (getTypeObject (getGenerator env options))
            (traverseArray
               (\<lambda>(key, childProperty).
                  E_map (getProperty (getGenerator env options) key (isRequired key (required p)))
                    (getType env options childProperty))
               (case properties p of None \<Rightarrow> [] | Some entries \<Rightarrow> entries))
        else if isEnum p then Inr (getTypeEnum (getGenerator env options) (the (enum p)))
        else if isNumber p then Inr (getTypeNumber (getGenerator env options))
        else if isString p then Inr (getTypeString (getGenerator env options))
        else if isBoolean p then Inr (getTypeBoolean (getGenerator env options))
        else if isInteger p then Inr (getTypeInteger (getGenerator env options))
        else getInvalidType env options p)"
  by (subst getType.simps) (simp add: plain_fix plain_guards)

text \<open>
  Whether a translation throws depends on the property alone, not on the generator or on
  \<open>exitOnInvalidType\<close>.
\<close>

lemma E_map_threw: "E_map f r = Inl TypeError \<longleftrightarrow> r = Inl TypeError"
  by (simp add: E_map_def split: sum.splits)

lemma getInvalidType_never_throws: "getInvalidType env options p \<noteq> Inl TypeError"
  by (simp add: getInvalidType_def)

lemma getType_throws_whatever_the_options:
  "getType env options p = Inl TypeError \<longleftrightarrow> getType env' options' p = Inl TypeError"
proof (induction env options p rule: getType.induct)
  case (1 env options property)
  let ?q = "fixErrorsOnProperty property"
  have members: "(\<exists>x \<in> set xs. getType env options x = Inl TypeError)
      \<longleftrightarrow> (\<exists>x \<in> set xs. getType env' options' x = Inl TypeError)"
    if "\<And>x. x \<in> set xs \<Longrightarrow>
      getType env options x = Inl TypeError \<longleftrightarrow> getType env' options' x = Inl TypeError" for xs
    using that by blast
  show ?case
  proof (cases "isReference ?q")
    case True
    then show ?thesis by (simp add: getType_reference E_map_threw)
  next
    case ref: False
    show ?thesis
    proof (cases "isValidAllOf ?q")
      case True
      with ref 1(1) show ?thesis
        by (simp add: getType_allOf E_map_threw traverseArray_threw)
    next
      case allOf: False
      show ?thesis
      proof (cases "isAnyOf ?q")
        case True
        with ref allOf 1(2) show ?thesis
          by (simp add: getType_anyOf E_map_threw traverseArray_threw)
      next
        case anyOf: False
        show ?thesis
        proof (cases "isOneOf ?q")
          case True
          with ref allOf anyOf 1(3) show ?thesis
            by (simp add: getType_oneOf E_map_threw traverseArray_threw)
        next
          case oneOf: False
          show ?thesis
          proof (cases "isArray ?q")
            case True
            with ref allOf anyOf oneOf 1(4) show ?thesis
              unfolding getType.simps [of env options property]
                getType.simps [of env' options' property]
              by (simp add: E_map_threw split: option.splits)
          next
            case array: False
            show ?thesis
            proof (cases "isObject ?q")
              case True
              have "\<And>entry. entry \<in> set (case properties ?q of None \<Rightarrow> [] | Some entries \<Rightarrow> entries) \<Longrightarrow>
                  getType env options (snd entry) = Inl TypeError
                  \<longleftrightarrow> getType env' options' (snd entry) = Inl TypeError"
                using 1(5) [OF ref allOf anyOf oneOf array True] by (auto simp: prod_eq_iff)
              then show ?thesis
                using ref allOf anyOf oneOf array True
                unfolding getType.simps [of env options property]
                  getType.simps [of env' options' property]
                by (simp add: E_map_threw traverseArray_threw case_prod_beta)
            next
              case False
              with ref allOf anyOf oneOf array show ?thesis
                unfolding getType.simps [of env options property]
                  getType.simps [of env' options' property]
                by (simp add: E_map_threw getInvalidType_never_throws)
            qed
          qed
        qed
      qed
    qed
  qed
qed

lemma baseDefinitionsToString_throws_whatever_the_options:
  "baseDefinitionsToString env options schemaMap = Inl TypeError
   \<longleftrightarrow> baseDefinitionsToString env' options' schemaMap = Inl TypeError"
  using getType_throws_whatever_the_options [of env options _ env' options']
  by (simp add: baseDefinitionsToString_def getTypesFromSchemas_def E_map_threw
      traverseArray_threw case_prod_beta)

lemmas guards = isReference_def isValidAllOf_def isAllOf_def isAnyOf_def isOneOf_def isArray_def
  isObject_def isEnum_def isNumber_def isString_def isBoolean_def isInteger_def isNullable_def

lemma getGenerator_TypeScript:
  "otype options = TypeScript \<Longrightarrow>
   getGenerator env options = typeScriptGenerator (toPascalCase env)"
  by (simp add: getGenerator_def)

lemma pascalCase_Pet: "toPascalCase exampleEnv ''Pet'' = ''Pet''"
  by (simp add: exampleEnv_def pascalCase_def toUpperCase_def)

lemma pascalCase_A: "toPascalCase exampleEnv ''A'' = ''A''"
  by (simp add: exampleEnv_def pascalCase_def toUpperCase_def)

lemmas examples = refProperty_def typeProperty_def objectProperty_def allOfProperty_def
  anyOfProperty_def withNullable_def mixedAllOf_def allOfWithOneOf_def refWithAllOfAndOneOf_def
  pet_def petDocument_def fixErrorsOnProperty_def plain_def isDigit_def pascalCase_Pet
  pascalCase_A

lemmas rendering = E_map_def E_chain_def E_ap_def doIf_def surround_def prefix_def suffix_def
  typeScriptGenerator_def getGenerator_TypeScript getReferenceName_def isRequired_def
  getInvalidType_def

lemmas driver = generate_def checkOpenApiVersion_def getDefinitions_def definitionsToString_def
  baseDefinitionsToString_def getTypesFromSchemas_def eitherPrefix_def

lemmas branches = getType_reference getType_allOf getType_anyOf getType_oneOf getType_invalid
  getType_plain

lemma pet_rendered:
  \<open>getGenerator env options = typeScriptGenerator f \<Longrightarrow>
   getType env options pet = Inr ''{"name":string,"age"?:(number|null)}''\<close>
  by (simp add: branches examples guards rendering)


lemma pet_TypeScript:
  \<open>otype options = TypeScript \<Longrightarrow>
   getType env options pet = Inr ''{"name":string,"age"?:(number|null)}''\<close>
  by (rule pet_rendered) (rule getGenerator_TypeScript)





section \<open>Normalisation\<close>

text \<open>
  C1, as stated, fails at \<open>{allOf: [{$ref: "#/components/schemas/A"}], properties: {x:
  {type: "string"}}}\<close>: a composite key stands beside \<open>properties\<close>, a field that describes
  a type, yet \<open>fixErrorsOnProperty\<close> tests for the key \<open>type\<close> only and leaves the property
  as it is. Nothing is moved, and the translation is \<open>A\<close>, the one declared member.
\<close>

theorem composite_beside_properties_not_normalised:
  "fixErrorsOnProperty allOfWithProperties = allOfWithProperties \<and>
   allOf (fixErrorsOnProperty allOfWithProperties) = Some [refProperty ''#/components/schemas/A''] \<and>
   properties (fixErrorsOnProperty allOfWithProperties) = Some [(''x'', typeProperty ''string'')] \<and>
   getType exampleEnv \<lparr>otype = TypeScript, exitOnInvalidType = True\<rparr> allOfWithProperties
     = Inr ''A''"
  by (simp add: allOfWithProperties_def branches examples guards rendering)

text \<open>
  C1, amended. A property without the key \<open>type\<close> is left as it is. When a composite key
  stands beside the key \<open>type\<close>, the normalised property holds the composite key alone:
  its members are the declared members followed by one new member, and that member
  carries every other field of the property. The first of \<open>allOf\<close>, \<open>oneOf\<close>, \<open>anyOf\<close>
  that is present is the composite. In particular
  \<open>{type: "object", allOf: [{$ref: "#/components/schemas/A"}], properties: {x: {type:
  "string"}}}\<close> becomes the \<open>allOf\<close> of two members, the reference to \<open>A\<close> and the object with
  the field \<open>x\<close> of type string; it passes the \<open>allOf\<close> guard and is translated as the
  intersection of the two, not as an object.
\<close>

theorem fixErrorsOnProperty_moves_fields:
  "(type p = None \<longrightarrow> fixErrorsOnProperty p = p)
   \<and> (type p \<noteq> None \<longrightarrow>
       (\<forall>members. allOf p = Some members \<longrightarrow>
            (\<exists>rest. allOf (fixErrorsOnProperty p) = Some (members @ [rest])
               \<and> allOf rest = None \<and> ref rest = ref p \<and> oneOf rest = oneOf p
               \<and> anyOf rest = anyOf p \<and> type rest = type p \<and> items rest = items p
               \<and> properties rest = properties p \<and> required rest = required p
               \<and> enum rest = enum p \<and> nullable rest = nullable p \<and> extras rest = extras p)
            \<and> fixErrorsOnProperty p = allOfProperty (the (allOf (fixErrorsOnProperty p))))
       \<and> (\<forall>members. allOf p = None \<and> oneOf p = Some members \<longrightarrow>
            (\<exists>rest. oneOf (fixErrorsOnProperty p) = Some (members @ [rest])
               \<and> oneOf rest = None \<and> ref rest = ref p \<and> allOf rest = allOf p
               \<and> anyOf rest = anyOf p \<and> type rest = type p \<and> items rest = items p
               \<and> properties rest = properties p \<and> required rest = required p
               \<and> enum rest = enum p \<and> nullable rest = nullable p \<and> extras rest = extras p)
            \<and> fixErrorsOnProperty p =
                Property None None (oneOf (fixErrorsOnProperty p)) None None None None None None
                  None [])
       \<and> (\<forall>members. allOf p = None \<and> oneOf p = None \<and> anyOf p = Some members \<longrightarrow>
            (\<exists>rest. anyOf (fixErrorsOnProperty p) = Some (members @ [rest])
               \<and> anyOf rest = None \<and> ref rest = ref p \<and> allOf rest = allOf p
               \<and> oneOf rest = oneOf p \<and> type rest = type p \<and> items rest = items p
               \<and> properties rest = properties p \<and> required rest = required p
               \<and> enum rest = enum p \<and> nullable rest = nullable p \<and> extras rest = extras p)
            \<and> fixErrorsOnProperty p = anyOfProperty (the (anyOf (fixErrorsOnProperty p)))))
   \<and> fixErrorsOnProperty mixedAllOf =
        allOfProperty [refProperty ''#/components/schemas/A'',
                       objectProperty [(''x'', typeProperty ''string'')] None]
   \<and> \<not> isReference (fixErrorsOnProperty mixedAllOf)
   \<and> isValidAllOf (fixErrorsOnProperty mixedAllOf)
   \<and> getType env options mixedAllOf =
        Inr (getTypeAllOf (getGenerator env options)
               [getTypeReference (getGenerator env options) ''A'',
                getTypeObject (getGenerator env options)
                  [getProperty (getGenerator env options) ''x'' False
                     (getTypeString (getGenerator env options))]])"
proof -
  have fixed: "fixErrorsOnProperty mixedAllOf =
      allOfProperty [refProperty ''#/components/schemas/A'',
                     objectProperty [(''x'', typeProperty ''string'')] None]"
    by (simp add: fixErrorsOnProperty_def mixedAllOf_def allOfProperty_def objectProperty_def)
  have "\<not> isReference (allOfProperty [refProperty ''#/components/schemas/A'',
                    objectProperty [(''x'', typeProperty ''string'')] None])"
    and "isValidAllOf (allOfProperty [refProperty ''#/components/schemas/A'',
                    objectProperty [(''x'', typeProperty ''string'')] None])"
    by (simp_all add: guards allOfProperty_def refProperty_def objectProperty_def)
  moreover have "getType env options mixedAllOf =
            Inr (getTypeAllOf (getGenerator env options)
                   [getTypeReference (getGenerator env options) ''A'',
                    getTypeObject (getGenerator env options)
                      [getProperty (getGenerator env options) ''x'' False
                         (getTypeString (getGenerator env options))]])"
    by (simp add: getType_allOf getType_reference getType_plain plain_def fixErrorsOnProperty_def
        guards refProperty_def typeProperty_def mixedAllOf_def E_map_def doIf_def
        getReferenceName_def isRequired_def)
  ultimately show ?thesis
    by (simp add: fixed)
      (auto simp: fixErrorsOnProperty_def allOfProperty_def anyOfProperty_def)
qed

text \<open>
  C1, amended, at the property of the example under the TypeScript generator: its \<open>type\<close>
  is present, the normalised property has the two members, and the translation is
  \<open>A&{"x"?:string}\<close>.
\<close>

theorem fixErrorsOnProperty_moves_fields_witness:
  \<open>type mixedAllOf \<noteq> None \<and>
   allOf mixedAllOf = Some [refProperty ''#/components/schemas/A''] \<and>
   fixErrorsOnProperty mixedAllOf =
     allOfProperty [refProperty ''#/components/schemas/A'',
                    objectProperty [(''x'', typeProperty ''string'')] None] \<and>
   getType exampleEnv \<lparr>otype = TypeScript, exitOnInvalidType = True\<rparr> mixedAllOf
     = Inr ''A&{"x"?:string}''\<close>
proof -
  have t: "type mixedAllOf \<noteq> None"
    and a: "allOf mixedAllOf = Some [refProperty ''#/components/schemas/A'']"
    by (simp_all add: mixedAllOf_def)
  from fixErrorsOnProperty_moves_fields
    [of mixedAllOf exampleEnv "\<lparr>otype = TypeScript, exitOnInvalidType = True\<rparr>"]
  have "fixErrorsOnProperty mixedAllOf =
          allOfProperty [refProperty ''#/components/schemas/A'',
                         objectProperty [(''x'', typeProperty ''string'')] None]"
    and "getType exampleEnv \<lparr>otype = TypeScript, exitOnInvalidType = True\<rparr> mixedAllOf =
      Inr (getTypeAllOf (getGenerator exampleEnv \<lparr>otype = TypeScript, exitOnInvalidType = True\<rparr>)
             [getTypeReference
                (getGenerator exampleEnv \<lparr>otype = TypeScript, exitOnInvalidType = True\<rparr>) ''A'',
              getTypeObject (getGenerator exampleEnv \<lparr>otype = TypeScript, exitOnInvalidType = True\<rparr>)
                [getProperty (getGenerator exampleEnv \<lparr>otype = TypeScript, exitOnInvalidType = True\<rparr>)
                   ''x'' False
                   (getTypeString
                      (getGenerator exampleEnv \<lparr>otype = TypeScript, exitOnInvalidType = True\<rparr>))]])"
    by blast+
  then show ?thesis
    using t a by (simp add: rendering pascalCase_A)
qed

text \<open>
  C7. \<open>fixErrorsOnProperty\<close> is idempotent: normalising a normalised property changes
  nothing, for every property.
\<close>

theorem fixErrorsOnProperty_idempotent:
  "fixErrorsOnProperty (fixErrorsOnProperty p) = fixErrorsOnProperty p"
  by (simp add: fixErrorsOnProperty_def)

section \<open>Nullable properties\<close>

text \<open>
  C2, as stated, fails at the property of C1 with \<open>nullable: true\<close> added: the flag moves
  into the new member with the other fields and is read again on the property itself, so
  the translation \<open>(A&({"x"?:string}|null)|null)\<close> wraps twice and differs from
  \<open>makeTypeNullable\<close> of the translation \<open>A&{"x"?:string}\<close> of the unflagged property.
\<close>

theorem nullable_wraps_twice_after_normalisation:
  \<open>getType exampleEnv \<lparr>otype = TypeScript, exitOnInvalidType = True\<rparr> mixedAllOf
     = Inr ''A&{"x"?:string}'' \<and>
   getType exampleEnv \<lparr>otype = TypeScript, exitOnInvalidType = True\<rparr> (withNullable mixedAllOf)
     = Inr ''(A&({"x"?:string}|null)|null)'' \<and>
   getType exampleEnv \<lparr>otype = TypeScript, exitOnInvalidType = True\<rparr> (withNullable mixedAllOf)
     \<noteq> E_map (makeTypeNullable
                (getGenerator exampleEnv \<lparr>otype = TypeScript, exitOnInvalidType = True\<rparr>))
          (getType exampleEnv \<lparr>otype = TypeScript, exitOnInvalidType = True\<rparr> mixedAllOf)\<close>
  by (simp add: branches examples guards rendering)

text \<open>
  C2, amended. Let \<open>p\<close> be a property that is not flagged nullable and in which no
  composite key stands beside \<open>type\<close> (normalisation leaves it as it is). Then the
  translation of \<open>p\<close> with \<open>nullable: true\<close> added is \<open>makeTypeNullable\<close> applied to the
  translation of \<open>p\<close>, a failure inside \<open>p\<close> being passed on unchanged; except that when
  \<open>p\<close> itself matches no shape and \<open>exitOnInvalidType\<close> is set, both translations fail and
  each failure carries its own property.
\<close>

theorem nullable_wraps_unnormalised:
  assumes "type p = None \<or> (allOf p = None \<and> oneOf p = None \<and> anyOf p = None)"
    and "nullable p \<noteq> Some True"
  shows "getType env options (withNullable p)
           = E_map (makeTypeNullable (getGenerator env options)) (getType env options p)
         \<or> (getType env options p = Inl (InvalidType p)
            \<and> getType env options (withNullable p) = Inl (InvalidType (withNullable p)))"
proof -
  have fixed: "fixErrorsOnProperty p = p" "fixErrorsOnProperty (withNullable p) = withNullable p"
    using assms(1) by (auto simp: fixErrorsOnProperty_def withNullable_fields)
  have same: "isReference (withNullable p) = isReference p"
    "isValidAllOf (withNullable p) = isValidAllOf p" "isAnyOf (withNullable p) = isAnyOf p"
    "isOneOf (withNullable p) = isOneOf p" "isArray (withNullable p) = isArray p"
    "isObject (withNullable p) = isObject p" "isEnum (withNullable p) = isEnum p"
    "isNumber (withNullable p) = isNumber p" "isString (withNullable p) = isString p"
    "isBoolean (withNullable p) = isBoolean p" "isInteger (withNullable p) = isInteger p"
    by (simp_all add: guards withNullable_fields)
  have flags: "isNullable (withNullable p)" "\<not> isNullable p"
    using assms(2) by (simp_all add: isNullable_def withNullable_fields)
  define F where "F = (\<lambda>otherwise.
        if isReference p then
          Inr (getReferenceName env options (the (ref p)))
        else if isValidAllOf p then
          E_map (getTypeAllOf (getGenerator env options))
            (traverseArray (getType env options) (the (allOf p)))
        else if isAnyOf p then
          E_map (getTypeAnyOf (getGenerator env options))
            (traverseArray (getType env options) (the (anyOf p)))
        else if isOneOf p then
          E_map (getTypeOneOf (getGenerator env options))
            (traverseArray (getType env options) (the (oneOf p)))
        else if isArray p then
          (case items p of
             None \<Rightarrow> Inl TypeError
           | Some child \<Rightarrow> E_map (getTypeArray (getGenerator env options)) (getType env options child))
        else if isObject p then
          E_map (getTypeObject (getGenerator env options))
            (traverseArray
               (\<lambda>(key, childProperty).
                  E_map (getProperty (getGenerator env options) key
                           (isRequired key (required p)))
                    (getType env options childProperty))
               (case properties p of None \<Rightarrow> [] | Some entries \<Rightarrow> entries))
        else if isEnum p then
          Inr (getTypeEnum (getGenerator env options) (the (enum p)))
        else if isNumber p then Inr (getTypeNumber (getGenerator env options))
        else if isString p then Inr (getTypeString (getGenerator env options))
        else if isBoolean p then Inr (getTypeBoolean (getGenerator env options))
        else if isInteger p then Inr (getTypeInteger (getGenerator env options))
        else otherwise)"
  have doIf_fun: "doIf True f = f" "doIf False f = (\<lambda>a. a)" for f :: "string \<Rightarrow> string"
    by (simp_all add: doIf_def fun_eq_iff)
  have E_map_id: "E_map (\<lambda>a. a) r = r" for r :: TypeResult
    by (simp add: E_map_def split: sum.splits)
  have unflagged: "getType env options p = F (getInvalidType env options p)"
    unfolding getType.simps [of env options p] F_def fixed
    by (simp add: flags doIf_fun E_map_id split del: if_split)
  have flagged: "getType env options (withNullable p) =
      E_map (makeTypeNullable (getGenerator env options))
        (F (getInvalidType env options (withNullable p)))"
    unfolding getType.simps [of env options "withNullable p"] F_def fixed same withNullable_fields
    by (simp add: flags doIf_fun split del: if_split)
  have either: "F x = F y \<or> (F x = x \<and> F y = y)" for x y
    by (simp add: F_def)
  show ?thesis
  proof (cases "exitOnInvalidType options")
    case True
    then show ?thesis
      using either [of "Inl (InvalidType (withNullable p))" "Inl (InvalidType p)"]
      by (auto simp: unflagged flagged getInvalidType_def E_map_def)
  next
    case False
    then show ?thesis
      by (simp add: unflagged flagged getInvalidType_def)
  qed
qed

text \<open>
  C2, amended, at \<open>{type: "integer"}\<close> under the TypeScript generator: the flagged
  property translates to \<open>(number|null)\<close>.
\<close>

theorem nullable_wraps_unnormalised_witness:
  \<open>(type (typeProperty ''integer'') = None
      \<or> (allOf (typeProperty ''integer'') = None \<and> oneOf (typeProperty ''integer'') = None
          \<and> anyOf (typeProperty ''integer'') = None)) \<and>
   nullable (typeProperty ''integer'') \<noteq> Some True \<and>
   getType exampleEnv \<lparr>otype = TypeScript, exitOnInvalidType = True\<rparr>
     (withNullable (typeProperty ''integer'')) = Inr ''(number|null)''\<close>
proof -
  have h1: "type (typeProperty ''integer'') = None
      \<or> (allOf (typeProperty ''integer'') = None \<and> oneOf (typeProperty ''integer'') = None
          \<and> anyOf (typeProperty ''integer'') = None)"
    and h2: "nullable (typeProperty ''integer'') \<noteq> Some True"
    by (simp_all add: typeProperty_def)
  have unflagged: "getType exampleEnv \<lparr>otype = TypeScript, exitOnInvalidType = True\<rparr>
      (typeProperty ''integer'') = Inr ''number''"
    by (simp add: branches examples guards rendering)
  from nullable_wraps_unnormalised [OF h1 h2, of exampleEnv
      "\<lparr>otype = TypeScript, exitOnInvalidType = True\<rparr>"]
  have "getType exampleEnv \<lparr>otype = TypeScript, exitOnInvalidType = True\<rparr>
      (withNullable (typeProperty ''integer'')) = Inr ''(number|null)''"
    by (simp add: unflagged rendering)
  with h1 h2 show ?thesis by blast
qed

section \<open>Composite properties\<close>

text \<open>
  C3, as stated, fails at \<open>{allOf: [{type: "string"}]}\<close> with \<open>exitOnInvalidType\<close> set: the
  only child translates to \<open>string\<close>, yet the property takes the invalid-type branch,
  because \<open>isValidAllOf\<close> admits only members that are references or objects.
\<close>

theorem allOf_of_string_is_invalid:
  "getType exampleEnv \<lparr>otype = TypeScript, exitOnInvalidType = True\<rparr> (typeProperty ''string'')
     = Inr ''string'' \<and>
   getType exampleEnv \<lparr>otype = TypeScript, exitOnInvalidType = True\<rparr>
       (allOfProperty [typeProperty ''string''])
     = Inl (InvalidType (allOfProperty [typeProperty ''string'']))"
  by (simp add: branches examples guards rendering)

text \<open>
  C3, amended. Let the normalised property be no reference. If it passes \<open>isValidAllOf\<close>
  (it has \<open>allOf\<close> and every \<open>allOf\<close> member is a reference or an object), the translation
  is the generator's intersection of the translations of the \<open>allOf\<close> members, whatever
  else the property holds. If it does not pass and has \<open>anyOf\<close>, it is the generator's
  \<open>anyOf\<close> union of the \<open>anyOf\<close> members. If it does not pass, has no \<open>anyOf\<close> and has
  \<open>oneOf\<close>, it is the \<open>oneOf\<close> union of the \<open>oneOf\<close> members. Each is wrapped as nullable
  when the property is flagged. The members are translated in the declared order: when
  all succeed their translations are joined in that order; when one fails, no member
  before it fails and no member after it throws, its failure is the result; and the
  traversal throws exactly when a member throws. A property with \<open>allOf\<close> that does not
  pass \<open>isValidAllOf\<close> and has no \<open>anyOf\<close> and no \<open>oneOf\<close> takes the invalid-type branch,
  whatever its members translate to.
\<close>

theorem composite_translation:
  assumes "\<not> isReference (fixErrorsOnProperty p)"
  shows
    "(isValidAllOf (fixErrorsOnProperty p) \<longrightarrow>
        getType env options p =
          E_map (doIf (isNullable p) (makeTypeNullable (getGenerator env options)))
            (E_map (getTypeAllOf (getGenerator env options))
               (traverseArray (getType env options) (the (allOf (fixErrorsOnProperty p))))))
     \<and> (\<not> isValidAllOf (fixErrorsOnProperty p) \<and> isAnyOf (fixErrorsOnProperty p) \<longrightarrow>
        getType env options p =
          E_map (doIf (isNullable p) (makeTypeNullable (getGenerator env options)))
            (E_map (getTypeAnyOf (getGenerator env options))
               (traverseArray (getType env options) (the (anyOf (fixErrorsOnProperty p))))))
     \<and> (\<not> isValidAllOf (fixErrorsOnProperty p) \<and> \<not> isAnyOf (fixErrorsOnProperty p)
          \<and> isOneOf (fixErrorsOnProperty p) \<longrightarrow>
        getType env options p =
          E_map (doIf (isNullable p) (makeTypeNullable (getGenerator env options)))
            (E_map (getTypeOneOf (getGenerator env options))
               (traverseArray (getType env options) (the (oneOf (fixErrorsOnProperty p))))))
     \<and> (isAllOf (fixErrorsOnProperty p) \<and> \<not> isValidAllOf (fixErrorsOnProperty p)
          \<and> \<not> isAnyOf (fixErrorsOnProperty p) \<and> \<not> isOneOf (fixErrorsOnProperty p) \<longrightarrow>
        getType env options p =
          E_map (doIf (isNullable p) (makeTypeNullable (getGenerator env options)))
            (getInvalidType env options (fixErrorsOnProperty p)))
     \<and> (\<forall>children. (\<forall>c \<in> set children. \<exists>t. getType env options c = Inr t) \<longrightarrow>
          traverseArray (getType env options) children =
            Inr (map (\<lambda>c. projr (getType env options c)) children))
     \<and> (\<forall>before c after e.
          (\<forall>b \<in> set before. \<exists>t. getType env options b = Inr t) \<and> getType env options c = Inl e
            \<and> (\<forall>a \<in> set after. getType env options a \<noteq> Inl TypeError) \<longrightarrow>
          traverseArray (getType env options) (before @ c # after) = Inl e)
     \<and> (\<forall>children. traverseArray (getType env options) children = Inl TypeError \<longleftrightarrow>
          (\<exists>c \<in> set children. getType env options c = Inl TypeError))"
proof -
  have invalid: "getType env options p =
          E_map (doIf (isNullable p) (makeTypeNullable (getGenerator env options)))
            (getInvalidType env options (fixErrorsOnProperty p))"
    if "isAllOf (fixErrorsOnProperty p)" "\<not> isValidAllOf (fixErrorsOnProperty p)"
      "\<not> isAnyOf (fixErrorsOnProperty p)" "\<not> isOneOf (fixErrorsOnProperty p)"
    using that assms fix_allOf_no_type [of p]
    by (intro getType_invalid)
      (simp_all add: isArray_def isObject_def isEnum_def isNumber_def isString_def isBoolean_def
        isInteger_def)
  show ?thesis
    using assms invalid
    by (simp add: getType_allOf getType_anyOf getType_oneOf traverseArray_all_projr
        traverseArray_first_Inl traverseArray_threw)
qed

text \<open>
  C3, amended, at \<open>{anyOf: [{type: "string"}, {$ref: "#/components/schemas/A"}]}\<close> under
  the TypeScript generator: the union \<open>string|A\<close>, in the declared order.
\<close>

theorem composite_translation_witness:
  "\<not> isReference
       (fixErrorsOnProperty
          (anyOfProperty [typeProperty ''string'', refProperty ''#/components/schemas/A''])) \<and>
   isAnyOf
       (fixErrorsOnProperty
          (anyOfProperty [typeProperty ''string'', refProperty ''#/components/schemas/A''])) \<and>
   getType exampleEnv \<lparr>otype = TypeScript, exitOnInvalidType = True\<rparr>
       (anyOfProperty [typeProperty ''string'', refProperty ''#/components/schemas/A''])
     = Inr ''string|A''"
proof -
  let ?p = "anyOfProperty [typeProperty ''string'', refProperty ''#/components/schemas/A'']"
  let ?options = "\<lparr>otype = TypeScript, exitOnInvalidType = True\<rparr>"
  have h: "\<not> isReference (fixErrorsOnProperty ?p)"
    and v: "\<not> isValidAllOf (fixErrorsOnProperty ?p)"
    and a: "isAnyOf (fixErrorsOnProperty ?p)"
    by (simp_all add: examples guards)
  from composite_translation [OF h, of exampleEnv ?options] v a
  have "getType exampleEnv ?options ?p =
          E_map (doIf (isNullable ?p) (makeTypeNullable (getGenerator exampleEnv ?options)))
            (E_map (getTypeAnyOf (getGenerator exampleEnv ?options))
               (traverseArray (getType exampleEnv ?options) (the (anyOf (fixErrorsOnProperty ?p)))))"
    by blast
  then have "getType exampleEnv ?options ?p = Inr ''string|A''"
    by (simp add: getType_reference getType_plain examples guards rendering)
  with h a show ?thesis by blast
qed

text \<open>
  C10, as stated, fails at a property that has \<open>allOf\<close> and \<open>oneOf\<close>, no \<open>type\<close>, members
  that are references, and a \<open>$ref\<close> of its own: the reference guard comes first, and the
  translation is the name \<open>Pet\<close> of the reference, not the intersection \<open>A\<close> of the
  \<open>allOf\<close> members.
\<close>

theorem reference_wins_over_allOf:
  "getType exampleEnv \<lparr>otype = TypeScript, exitOnInvalidType = True\<rparr> refWithAllOfAndOneOf
     = Inr ''Pet'' \<and>
   getType exampleEnv \<lparr>otype = TypeScript, exitOnInvalidType = True\<rparr> refWithAllOfAndOneOf
     \<noteq> Inr (getTypeAllOf (getGenerator exampleEnv \<lparr>otype = TypeScript, exitOnInvalidType = True\<rparr>)
              [''A''])"
  by (simp add: branches examples guards rendering)

text \<open>
  C10, amended. A property with \<open>allOf\<close>, with no \<open>type\<close> and no \<open>$ref\<close>, whose \<open>allOf\<close>
  members are each a reference or an object, is translated as the generator's
  intersection of the translations of the \<open>allOf\<close> members, wrapped as nullable when the
  property is flagged, whatever \<open>oneOf\<close> and \<open>anyOf\<close> hold and whatever
  \<open>exitOnInvalidType\<close> is: the only failures are those of the \<open>allOf\<close> members.
\<close>

theorem allOf_wins_over_oneOf_anyOf:
  assumes "ref p = None" and "type p = None" and "allOf p = Some members"
    and "\<forall>m \<in> set members. isReference m \<or> isObject m"
  shows "getType env options p =
           E_map (doIf (isNullable p) (makeTypeNullable (getGenerator env options)))
             (E_map (getTypeAllOf (getGenerator env options))
                (traverseArray (getType env options) members))"
  using assms
  by (simp add: getType_allOf fixErrorsOnProperty_no_type isReference_def isValidAllOf_def
      isAllOf_def list_all_iff)

text \<open>
  C10, amended, at \<open>{allOf: [{$ref: "#/components/schemas/A"}], oneOf: [{$ref:
  "#/components/schemas/Pet"}]}\<close> under the TypeScript generator: the translation is \<open>A\<close>.
\<close>

theorem allOf_wins_over_oneOf_anyOf_witness:
  "ref allOfWithOneOf = None \<and> type allOfWithOneOf = None \<and>
   allOf allOfWithOneOf = Some [refProperty ''#/components/schemas/A''] \<and>
   oneOf allOfWithOneOf = Some [refProperty ''#/components/schemas/Pet''] \<and>
   getType exampleEnv \<lparr>otype = TypeScript, exitOnInvalidType = True\<rparr> allOfWithOneOf = Inr ''A''"
proof -
  have h: "ref allOfWithOneOf = None" "type allOfWithOneOf = None"
    "allOf allOfWithOneOf = Some [refProperty ''#/components/schemas/A'']"
    "\<forall>m \<in> set [refProperty ''#/components/schemas/A'']. isReference m \<or> isObject m"
    and o: "oneOf allOfWithOneOf = Some [refProperty ''#/components/schemas/Pet'']"
    by (simp_all add: allOfWithOneOf_def refProperty_def isReference_def)
  from allOf_wins_over_oneOf_anyOf [OF h, of exampleEnv
      "\<lparr>otype = TypeScript, exitOnInvalidType = True\<rparr>"]
  have "getType exampleEnv \<lparr>otype = TypeScript, exitOnInvalidType = True\<rparr> allOfWithOneOf
      = Inr ''A''"
    by (simp add: getType_reference examples guards rendering)
  with h o show ?thesis by blast
qed

section \<open>Object properties\<close>

text \<open>
  C4, as stated, fails at \<open>{type: "object", properties: {a: {type: "string"}, b: {type:
  "string", allOf: [{type: "string"}]}}}\<close> with \<open>exitOnInvalidType\<close> set. The field \<open>a\<close>
  translates to \<open>string\<close>. The property of \<open>b\<close> is normalised to \<open>{allOf: [{type:
  "string"}, {type: "string"}]}\<close>, which matches no shape (its members are neither
  references nor objects), and the error carries that normalised property, not the
  property \<open>b\<close> was declared with.
\<close>

theorem invalid_field_error_is_normalised:
  "getType exampleEnv \<lparr>otype = TypeScript, exitOnInvalidType = True\<rparr> (typeProperty ''string'')
     = Inr ''string'' \<and>
   getType exampleEnv \<lparr>otype = TypeScript, exitOnInvalidType = True\<rparr>
     (objectProperty [(''a'', typeProperty ''string''), (''b'', stringWithAllOf)] None)
     = Inl (InvalidType (allOfProperty [typeProperty ''string'', typeProperty ''string''])) \<and>
   getType exampleEnv \<lparr>otype = TypeScript, exitOnInvalidType = True\<rparr>
     (objectProperty [(''a'', typeProperty ''string''), (''b'', stringWithAllOf)] None)
     \<noteq> Inl (InvalidType stringWithAllOf)"
  by (simp add: stringWithAllOf_def branches examples guards rendering)

text \<open>
  C4, amended. With \<open>exitOnInvalidType\<close> set, let \<open>p\<close> be an object property (no reference,
  no composite) whose fields before \<open>b\<close> all translate, let the property of \<open>b\<close>, once
  normalised, match none of the shapes, and let no field after \<open>b\<close> throw. Then the
  translation of \<open>p\<close> fails, and the failure is the invalid-type error that carries the
  normalised property of \<open>b\<close>: one error, that of the leftmost failing field, and no
  output. The normalised property is the property of \<open>b\<close> itself unless a composite key
  stands beside \<open>type\<close> in it. The fields \<open>[a, b]\<close> of the claim are \<open>before = [a]\<close> and
  \<open>after = []\<close>.
\<close>

theorem object_fails_at_first_invalid_field:
  assumes "exitOnInvalidType options"
    and "\<not> isReference p \<and> \<not> isAllOf p \<and> \<not> isAnyOf p \<and> \<not> isOneOf p \<and> isObject p"
    and "properties p = Some (before @ (b, pb) # after)"
    and "\<forall>(a, pa) \<in> set before. \<exists>t. getType env options pa = Inr t"
    and "\<not> isReference (fixErrorsOnProperty pb) \<and> \<not> isValidAllOf (fixErrorsOnProperty pb)
         \<and> \<not> isAnyOf (fixErrorsOnProperty pb) \<and> \<not> isOneOf (fixErrorsOnProperty pb)
         \<and> \<not> isArray (fixErrorsOnProperty pb) \<and> \<not> isObject (fixErrorsOnProperty pb)
         \<and> \<not> isEnum (fixErrorsOnProperty pb) \<and> \<not> isNumber (fixErrorsOnProperty pb)
         \<and> \<not> isString (fixErrorsOnProperty pb) \<and> \<not> isBoolean (fixErrorsOnProperty pb)
         \<and> \<not> isInteger (fixErrorsOnProperty pb)"
    and "\<forall>(c, pc) \<in> set after. getType env options pc \<noteq> Inl TypeError"
  shows "getType env options p = Inl (InvalidType (fixErrorsOnProperty pb))
         \<and> (type pb = None \<or> (allOf pb = None \<and> oneOf pb = None \<and> anyOf pb = None) \<longrightarrow>
            getType env options p = Inl (InvalidType pb))"
proof -
  let ?field = "\<lambda>(key, childProperty).
          E_map (getProperty (getGenerator env options) key (isRequired key (required p)))
            (getType env options childProperty)"
  have p: "plain p"
    using assms(2) by (simp add: plain_def guards)
  have "getType env options pb = Inl (InvalidType (fixErrorsOnProperty pb))"
    using assms(1,5) by (simp add: getType_invalid getInvalidType_def E_map_def)
  then have field: "?field (b, pb) = Inl (InvalidType (fixErrorsOnProperty pb))"
    by (simp add: E_map_def)
  have before: "\<forall>x \<in> set before. \<exists>y. ?field x = Inr y"
    using assms(4) by (auto simp: E_map_def)
  have after: "\<forall>x \<in> set after. ?field x \<noteq> Inl TypeError"
    using assms(6) by (auto simp: E_map_def split: sum.splits)
  have "getType env options p = Inl (InvalidType (fixErrorsOnProperty pb))"
    using traverseArray_first_Inl [OF before field after] assms(2,3)
    by (simp add: getType_plain [OF p] isArray_def isObject_def E_map_def)
  moreover have "fixErrorsOnProperty pb = pb"
    if "type pb = None \<or> (allOf pb = None \<and> oneOf pb = None \<and> anyOf pb = None)"
    using that by (auto simp: fixErrorsOnProperty_def)
  ultimately show ?thesis by auto
qed

text \<open>
  C4, amended, at \<open>{type: "object", properties: {a: {type: "string"}, b: {type:
  "date"}}}\<close>: the field \<open>a\<close> translates to \<open>string\<close>, and the translation of the object
  fails with the error that carries \<open>{type: "date"}\<close>.
\<close>

theorem object_fails_at_first_invalid_field_witness:
  "getType exampleEnv \<lparr>otype = TypeScript, exitOnInvalidType = True\<rparr> (typeProperty ''string'')
     = Inr ''string'' \<and>
   fixErrorsOnProperty (typeProperty ''date'') = typeProperty ''date'' \<and>
   getType exampleEnv \<lparr>otype = TypeScript, exitOnInvalidType = True\<rparr>
     (objectProperty [(''a'', typeProperty ''string''), (''b'', typeProperty ''date'')] None)
   = Inl (InvalidType (typeProperty ''date''))"
proof -
  let ?options = "\<lparr>otype = TypeScript, exitOnInvalidType = True\<rparr>"
  let ?p = "objectProperty [(''a'', typeProperty ''string''), (''b'', typeProperty ''date'')] None"
  let ?b = "fixErrorsOnProperty (typeProperty ''date'')"
  have a: "getType exampleEnv ?options (typeProperty ''string'') = Inr ''string''"
    by (simp add: branches examples guards rendering)
  have same: "?b = typeProperty ''date''"
    by (simp add: fixErrorsOnProperty_def typeProperty_def)
  have h1: "exitOnInvalidType ?options"
    and h2: "\<not> isReference ?p \<and> \<not> isAllOf ?p \<and> \<not> isAnyOf ?p \<and> \<not> isOneOf ?p \<and> isObject ?p"
    and h3: "properties ?p = Some ([(''a'', typeProperty ''string'')] @
               (''b'', typeProperty ''date'') # [])"
    and h4: "\<forall>(a, pa) \<in> set [(''a'', typeProperty ''string'')].
               \<exists>t. getType exampleEnv ?options pa = Inr t"
    and h5: "\<not> isReference ?b \<and> \<not> isValidAllOf ?b \<and> \<not> isAnyOf ?b \<and> \<not> isOneOf ?b
         \<and> \<not> isArray ?b \<and> \<not> isObject ?b \<and> \<not> isEnum ?b \<and> \<not> isNumber ?b \<and> \<not> isString ?b
         \<and> \<not> isBoolean ?b \<and> \<not> isInteger ?b"
    and h6: "\<forall>(c, pc) \<in> set []. getType exampleEnv ?options pc \<noteq> Inl TypeError"
    by (simp_all add: a same) (simp_all add: objectProperty_def typeProperty_def guards)
  from object_fails_at_first_invalid_field [OF h1 h2 h3 h4 h5 h6] a same
  show ?thesis by simp
qed

section \<open>The driver\<close>

text \<open>
  C5, as stated, fails: for the document that holds the schema \<open>Pet\<close>, \<open>generate\<close> under
  the TypeScript generator does not return exactly
  \<open>export type Pet={"name":string,"age"?:(number|null)}\<close>, because it applies the
  generator's \<open>addHeader\<close> to the declarations.
\<close>

theorem pet_output_has_header:
  \<open>generate exampleEnv \<lparr>otype = TypeScript, exitOnInvalidType = True\<rparr> (petDocument ''3.0.0'')
     \<noteq> Inr ''export type Pet={"name":string,"age"?:(number|null)}''\<close>
  by (simp add: driver petDocument_def isDigit_def pet_TypeScript pascalCase_Pet rendering)

text \<open>
  C5, amended. For a document of a supported version that holds the schema \<open>Pet\<close>, and
  with \<open>toPascalCase\<close> leaving the name \<open>Pet\<close> as it is, \<open>generate\<close> under the TypeScript
  generator returns the header \<open>"use strict";\<close> and a newline, followed by
  \<open>export type Pet={"name":string,"age"?:(number|null)}\<close>: the fields are in the order of
  their declaration, \<open>age\<close> is optional because it is not in \<open>required\<close>, and \<open>integer\<close>
  is rendered \<open>number\<close>, wrapped as \<open>(number|null)\<close>.
\<close>

theorem pet_document_output:
  assumes "matchVersion version" and "toPascalCase env ''Pet'' = ''Pet''"
  shows \<open>generate env \<lparr>otype = TypeScript, exitOnInvalidType = e\<rparr> (petDocument version) =
           Inr (''"use strict";'' @ [CHR 0x0A] @
                ''export type Pet={"name":string,"age"?:(number|null)}'')\<close>
  using assms
  by (simp add: driver petDocument_def pet_TypeScript rendering)

text \<open>C5, amended, at the version \<open>3.0.0\<close> and the environment of the examples.\<close>

theorem pet_document_output_witness:
  \<open>matchVersion ''3.0.0'' \<and> toPascalCase exampleEnv ''Pet'' = ''Pet'' \<and>
   generate exampleEnv \<lparr>otype = TypeScript, exitOnInvalidType = True\<rparr> (petDocument ''3.0.0'') =
     Inr (''"use strict";'' @ [CHR 0x0A] @
          ''export type Pet={"name":string,"age"?:(number|null)}'')\<close>
proof -
  have v: "matchVersion ''3.0.0''"
    by (simp add: isDigit_def)
  from pet_document_output [OF v pascalCase_Pet]
  show ?thesis using v pascalCase_Pet by simp
qed




text \<open>
  C8. \<open>generate\<close> succeeds only on a document whose version matches \<open>3.0.\<close> and a digit
  (as the regular expression matches: somewhere in the string). On every other document
  it fails with the version error for that version string, whatever else the document
  holds: nothing of the document but the version decides the result.
\<close>

theorem unsupported_version_fails:
  "(\<not> matchVersion (openapi swagger) \<longrightarrow>
      generate env options swagger = Inl (VersionNotSupported (openapi swagger)))
   \<and> (\<forall>out. generate env options swagger = Inr out \<longrightarrow> matchVersion (openapi swagger))"
  by (auto simp: generate_def checkOpenApiVersion_def E_map_def E_chain_def)

text \<open>C8, at the document of the schema \<open>Pet\<close> under the version \<open>2.0.0\<close>.\<close>

theorem unsupported_version_fails_witness:
  "\<not> matchVersion (openapi (petDocument ''2.0.0'')) \<and>
   generate exampleEnv \<lparr>otype = TypeScript, exitOnInvalidType = False\<rparr> (petDocument ''2.0.0'')
     = Inl (VersionNotSupported ''2.0.0'')"
proof -
  have v: "\<not> matchVersion (openapi (petDocument ''2.0.0''))"
    by (simp add: petDocument_def isDigit_def)
  from unsupported_version_fails [of "petDocument ''2.0.0''"] v
  have "generate exampleEnv \<lparr>otype = TypeScript, exitOnInvalidType = False\<rparr> (petDocument ''2.0.0'')
     = Inl (VersionNotSupported (openapi (petDocument ''2.0.0'')))"
    by blast
  with v show ?thesis by (simp add: petDocument_def)
qed

text \<open>
  C9, as stated, fails at a document with no \<open>components\<close> and the version \<open>2.0.0\<close>: the
  version is checked first, and \<open>generate\<close> fails with the version error, not with the
  no-definitions error.
\<close>

theorem version_checked_before_definitions:
  "generate exampleEnv \<lparr>otype = TypeScript, exitOnInvalidType = False\<rparr>
     \<lparr>openapi = ''2.0.0'', components = None\<rparr> = Inl (VersionNotSupported ''2.0.0'') \<and>
   generate exampleEnv \<lparr>otype = TypeScript, exitOnInvalidType = False\<rparr>
     \<lparr>openapi = ''2.0.0'', components = None\<rparr> \<noteq> Inl NoDefinition"
  by (simp add: driver rendering isDigit_def)

text \<open>
  C9, amended. For every document of a supported version: when it has no \<open>components\<close>,
  \<open>generate\<close> fails with the no-definitions error; when it has, \<open>generate\<close> is the
  translation \<open>definitionsToString\<close> of the schemas of its \<open>components\<close>, under the
  generator's header.
\<close>

theorem definitions_extracted_after_version_check:
  assumes "matchVersion (openapi swagger)"
  shows "(components swagger = None \<longrightarrow> generate env options swagger = Inl NoDefinition)
       \<and> (\<forall>c. components swagger = Some c \<longrightarrow>
            generate env options swagger =
              E_map (addHeader (getGenerator env options))
                (definitionsToString env options (schemas c)))"
  using assms
  by (simp add: generate_def checkOpenApiVersion_def getDefinitions_def E_map_def E_chain_def)

text \<open>C9, amended, at the document with the version \<open>3.0.2\<close> and no \<open>components\<close>.\<close>

theorem definitions_extracted_after_version_check_witness:
  "matchVersion (openapi \<lparr>openapi = ''3.0.2'', components = None\<rparr>) \<and>
   generate exampleEnv \<lparr>otype = TypeScript, exitOnInvalidType = False\<rparr>
     \<lparr>openapi = ''3.0.2'', components = None\<rparr> = Inl NoDefinition"
proof -
  have v: "matchVersion (openapi \<lparr>openapi = ''3.0.2'', components = None\<rparr>)"
    by (simp add: isDigit_def)
  from definitions_extracted_after_version_check [OF v]
  show ?thesis using v by simp
qed

end
